theory Spec2Isabelle
  imports Complex_Main "HOL-Library.Sublist"
begin

section \<open>Text, identifiers and time\<close>

text \<open>
  A Python \<^verbatim>\<open>str\<close> is a \<^typ>\<open>string\<close>, one \<^typ>\<open>char\<close> per character (code points
  below 256). \<^verbatim>\<open>str.lower()\<close> maps the capital letters of that range to their small
  letters: \<^verbatim>\<open>A\<close>..\<^verbatim>\<open>Z\<close>, and the accented capitals 192..222 except the
  multiplication sign 215.
\<close>

definition lower_char :: "char \<Rightarrow> char" where
  "lower_char c =
     (let n = (of_char c :: nat)
      in if (65 \<le> n \<and> n \<le> 90) \<or> (192 \<le> n \<and> n \<le> 222 \<and> n \<noteq> 215)
         then char_of (n + 32) else c)"

definition py_lower :: "string \<Rightarrow> string" where
  "py_lower s = map lower_char s"

text \<open>
  \<^verbatim>\<open>datetime.now(timezone.utc)\<close> is a reading of the clock, an input of every request;
  timestamps are counted in clock ticks.
\<close>

type_synonym timestamp = nat

text \<open>
  \<^verbatim>\<open>bson.ObjectId(s)\<close> takes a string of 24 characters and reads it with
  \<^verbatim>\<open>bytes.fromhex\<close>: pairs of hexadecimal digits, with ASCII whitespace skipped before
  each pair. It raises \<^verbatim>\<open>InvalidId\<close> on any other string. An identifier is kept as the
  lower-case hexadecimal spelling of its bytes, which is what \<^verbatim>\<open>str(oid)\<close> prints; two
  spellings that differ in letter case or in whitespace denote the same identifier.
\<close>

type_synonym object_id = string

definition hexdigits :: string where
  "hexdigits = ''0123456789abcdefABCDEF''"

definition whitespace :: string where
  "whitespace = [CHR 0x20, CHR 0x09, CHR 0x0A, CHR 0x0B, CHR 0x0C, CHR 0x0D]"

fun fromhex :: "string \<Rightarrow> string option" where
  "fromhex [] = Some []"
| "fromhex [c] = (if c \<in> set whitespace then Some [] else None)"
| "fromhex (c # c' # cs) =
     (if c \<in> set whitespace then fromhex (c' # cs)
      else if c \<in> set hexdigits \<and> c' \<in> set hexdigits
           then map_option (\<lambda>r. lower_char c # lower_char c' # r) (fromhex cs)
           else None)"

definition ObjectId :: "string \<Rightarrow> object_id option" where
  "ObjectId s = (if length s = 24 then fromhex s else None)"

section \<open>Exceptions and replies\<close>

text \<open>
  \<^verbatim>\<open>HTTPException(status, detail)\<close> is what the handlers raise themselves. The other
  constructors are the exceptions of the libraries the handlers call; none of them is
  caught outside the three \<^verbatim>\<open>try\<close> blocks, where every \<^verbatim>\<open>Exception\<close> is.
\<close>

datatype exn =
    HTTPException nat string
  | InvalidId
  | TypeError
  | ValidationError
  | OperationFailure
  | OverflowError
  | DatabaseUnavailable
  | StoreFailure

section \<open>Schemas (schemas.py)\<close>

record User =
  role :: string
  name :: string
  email :: string
  password_hash :: string
  phone :: "string option"
  photo_url :: "string option"
  age :: "int option"
  gender :: "string option"
  is_active :: bool
  ad_free :: bool
  subscription_expiry :: "timestamp option"

record Product =
  affiliate_id :: string
  images :: "string list"
  title :: string
  description :: "string option"
  price :: real
  vendor :: string
  category :: "string option"
  tags :: "string list"
  rating :: "real option"
  hot_deal :: bool
  hot_deal_expiry :: "timestamp option"
  featured :: bool
  clicks :: int
  orders :: int
  affiliate_link :: "string option"

text \<open>
  The fields of \<^verbatim>\<open>Order\<close> and \<^verbatim>\<open>Click\<close> that share a name with a field of
  \<^verbatim>\<open>Product\<close> carry the schema's name as a prefix.
\<close>

record Order =
  order_user_id :: string
  order_product_id :: string
  order_affiliate_id :: string
  status :: string
  vendor_url :: "string option"

record Click =
  click_type :: string
  click_user_id :: "string option"
  click_product_id :: "string option"
  click_affiliate_id :: "string option"
  ip :: "string option"
  meta :: "string \<rightharpoonup> string"

record AdminSettings =
  links :: "string \<rightharpoonup> string"

record AdminAuditLog =
  admin_id :: string
  action :: string
  details :: "string \<rightharpoonup> string"

section \<open>The document store\<close>

text \<open>
  A stored document is the dumped schema together with the store's \<^verbatim>\<open>_id\<close> and the two
  stamps \<^verbatim>\<open>created_at\<close> and \<^verbatim>\<open>updated_at\<close>. A collection is the list of its documents
  in insertion order, the order in which the store scans them.
\<close>

record 'a doc =
  oid :: object_id
  created_at :: timestamp
  updated_at :: timestamp
  body :: 'a

record database =
  user_coll :: "User doc list"
  product_coll :: "Product doc list"
  order_coll :: "Order doc list"
  click_coll :: "Click doc list"
  adminsettings_coll :: "AdminSettings doc list"
  adminauditlog_coll :: "AdminAuditLog doc list"

text \<open>
  What a request takes from its surroundings: the clock, the identifier the store gives
  to the document inserted by the request's \<open>k\<close>-th write, and whether that \<open>k\<close>-th
  write raises (the store is unreachable, the write is rejected). Writes are counted
  from 0 in the order the handler issues them. Reads are always answered.
\<close>

record env =
  clock :: timestamp
  new_id :: "nat \<Rightarrow> object_id"
  raises :: "nat \<Rightarrow> bool"

text \<open>\<^verbatim>\<open>find_one(filter)\<close>: the first document that satisfies the filter, if any.\<close>

definition find_one :: "('a \<Rightarrow> bool) \<Rightarrow> 'a list \<Rightarrow> 'a option" where
  "find_one P xs = List.find P xs"

text \<open>\<^verbatim>\<open>update_one(filter, update)\<close>: the update applied to the first match only.\<close>

fun update_one :: "('a \<Rightarrow> bool) \<Rightarrow> ('a \<Rightarrow> 'a) \<Rightarrow> 'a list \<Rightarrow> 'a list" where
  "update_one P f [] = []"
| "update_one P f (x # xs) = (if P x then f x # xs else x # update_one P f xs)"

text \<open>
  A write to a collection of the connected store; the collection is named by the
  update function of its field.
\<close>

definition write_coll ::
  "env \<Rightarrow> nat \<Rightarrow> (('a list \<Rightarrow> 'a list) \<Rightarrow> database \<Rightarrow> database) \<Rightarrow> ('a list \<Rightarrow> 'a list) \<Rightarrow>
   database \<Rightarrow> exn + database" where
  "write_coll e k coll f d = (if raises e k then Inl StoreFailure else Inr (coll f d))"

text \<open>
  Modelled from the spec: \<^verbatim>\<open>create_document\<close> of \<^verbatim>\<open>database.py\<close>, which is not among
  the sources. It inserts the dumped schema into the named collection of the store,
  stamped with \<^verbatim>\<open>created_at\<close> and \<^verbatim>\<open>updated_at\<close> (the stamps the listings are sorted
  by), and returns the store-generated identifier as a string. No handler calls it
  without a store (\<^verbatim>\<open>db\<close> being \<^verbatim>\<open>None\<close>); there it has no collection to insert into
  and raises.
\<close>

definition create_document ::
  "env \<Rightarrow> nat \<Rightarrow> (('a doc list \<Rightarrow> 'a doc list) \<Rightarrow> database \<Rightarrow> database) \<Rightarrow> 'a \<Rightarrow>
   database option \<Rightarrow> exn + (object_id \<times> database option)" where
  "create_document e k coll x db =
     (case db of
        None \<Rightarrow> Inl DatabaseUnavailable
      | Some d \<Rightarrow>
          (case write_coll e k coll
                  (\<lambda>xs. xs @ [\<lparr>oid = new_id e k, created_at = clock e, updated_at = clock e,
                                body = x\<rparr>]) d of
             Inl err \<Rightarrow> Inl err
           | Inr d' \<Rightarrow> Inr (new_id e k, Some d')))"

text \<open>
  \<^verbatim>\<open>try: ... except Exception: pass\<close> around a write: the state after the block is the
  written one when the write returned, and the one before when it raised.
\<close>

definition swallow :: "database option \<Rightarrow> exn + ('a \<times> database option) \<Rightarrow> database option" where
  "swallow db r = (case r of Inl _ \<Rightarrow> db | Inr (_, db') \<Rightarrow> db')"

section \<open>The store's query operators\<close>








section \<open>Requests and replies (main.py)\<close>

text \<open>
  The fields of the two product requests carry the prefixes \<open>new_\<close> and \<open>upd_\<close>.
  An optional field is \<open>None\<close> when the request leaves it out or sends \<^verbatim>\<open>null\<close>.
\<close>

record ProductCreateRequest =
  new_images :: "string list"
  new_title :: string
  new_description :: "string option"
  new_price :: real
  new_vendor :: string
  new_category :: "string option"
  new_tags :: "string list"
  new_rating :: "real option"
  new_affiliate_link :: "string option"
  new_hot_deal :: bool
  new_hot_deal_expiry :: "timestamp option"

record ProductUpdateRequest =
  upd_images :: "string list option"
  upd_title :: "string option"
  upd_description :: "string option"
  upd_price :: "real option"
  upd_vendor :: "string option"
  upd_category :: "string option"
  upd_tags :: "string list option"
  upd_rating :: "real option"
  upd_affiliate_link :: "string option"
  upd_hot_deal :: "bool option"
  upd_hot_deal_expiry :: "timestamp option"
  upd_featured :: "bool option"

record AdminLinks =
  payload_links :: "string \<rightharpoonup> string"

record Address =
  host :: string
  port :: nat

record Request =
  client :: "Address option"

datatype reply =
    Ok
  | Ok_product_id string
  | Ok_order_id string
  | Ok_links "string \<rightharpoonup> string"
  | Ok_items "Product doc list"
  | RedirectResponse string

type_synonym outcome = "(exn + reply) \<times> database option"

section \<open>Products\<close>

text \<open>\<^verbatim>\<open>ProductSchema(...)\<close> validates the rating: \<^verbatim>\<open>ge=0, le=5\<close>.\<close>

definition ProductSchema :: "string \<Rightarrow> ProductCreateRequest \<Rightarrow> exn + Product" where
  "ProductSchema user_id req =
     (if (case new_rating req of Some r \<Rightarrow> r < 0 \<or> 5 < r | None \<Rightarrow> False)
      then Inl ValidationError
      else Inr \<lparr>affiliate_id = user_id, images = new_images req, title = new_title req,
              description = new_description req, price = new_price req,
              vendor = new_vendor req, category = new_category req, tags = new_tags req,
              rating = new_rating req, hot_deal = new_hot_deal req,
              hot_deal_expiry = new_hot_deal_expiry req, featured = False, clicks = 0,
              orders = 0, affiliate_link = new_affiliate_link req\<rparr>)"

text \<open>\<^verbatim>\<open>POST /affiliate/products\<close>\<close>

definition create_product ::
  "env \<Rightarrow> database option \<Rightarrow> ProductCreateRequest \<Rightarrow> string \<Rightarrow> outcome" where
  "create_product e db req user_id =
     (case (case db of
              None \<Rightarrow> Inr None
            | Some d \<Rightarrow>
                (case ObjectId user_id of
                   None \<Rightarrow> Inl InvalidId
                 | Some i \<Rightarrow> Inr (find_one (\<lambda>u. oid u = i) (user_coll d)))) of
        Inl err \<Rightarrow> (Inl err, db)
      | Inr aff \<Rightarrow>
          if (case aff of None \<Rightarrow> True | Some u \<Rightarrow> role (body u) \<noteq> ''affiliate'')
          then (Inl (HTTPException 403 ''Only affiliates can upload''), db)
          else
            (case ProductSchema user_id req of
               Inl err \<Rightarrow> (Inl err, db)
             | Inr prd \<Rightarrow>
                 (case create_document e 0 product_coll_update prd db of
                    Inl err \<Rightarrow> (Inl err, db)
                  | Inr (pid, db') \<Rightarrow> (Inr (Ok_product_id pid), db'))))"

text \<open>
  \<^verbatim>\<open>GET /products\<close>. The filter is the conjunction of the parts the handler puts into
  \<^verbatim>\<open>filt\<close>; a part is put there when its argument is truthy (\<open>q\<close>, \<open>category\<close>) or
  not \<^verbatim>\<open>None\<close> (\<open>hot\<close>). A regular expression never matches a field that is
  \<^verbatim>\<open>null\<close>. The limit is sent to the store as a 64-bit integer.
\<close>

definition if_truthy :: "string option \<Rightarrow> string option" where
  "if_truthy s = (case s of None \<Rightarrow> None | Some t \<Rightarrow> if t = [] then None else Some t)"



text \<open>
  \<^verbatim>\<open>PATCH /affiliate/products/{product_id}\<close>. \<^verbatim>\<open>model_dump(exclude_none=True)\<close> keeps
  the fields of the request that are not \<^verbatim>\<open>None\<close>, and \<^verbatim>\<open>$set\<close> writes exactly those,
  together with the new \<^verbatim>\<open>updated_at\<close>.
\<close>

definition set_field :: "'a option \<Rightarrow> 'a \<Rightarrow> 'a" where
  "set_field v old = (case v of None \<Rightarrow> old | Some x \<Rightarrow> x)"

definition set_optional :: "'a option \<Rightarrow> 'a option \<Rightarrow> 'a option" where
  "set_optional v old = (case v of None \<Rightarrow> old | Some x \<Rightarrow> Some x)"

definition set_updates :: "ProductUpdateRequest \<Rightarrow> timestamp \<Rightarrow> Product doc \<Rightarrow> Product doc" where
  "set_updates req now x =
     x\<lparr>updated_at := now,
       body := (body x)\<lparr>
         images := set_field (upd_images req) (images (body x)),
         title := set_field (upd_title req) (title (body x)),
         description := set_optional (upd_description req) (description (body x)),
         price := set_field (upd_price req) (price (body x)),
         vendor := set_field (upd_vendor req) (vendor (body x)),
         category := set_optional (upd_category req) (category (body x)),
         tags := set_field (upd_tags req) (tags (body x)),
         rating := set_optional (upd_rating req) (rating (body x)),
         affiliate_link := set_optional (upd_affiliate_link req) (affiliate_link (body x)),
         hot_deal := set_field (upd_hot_deal req) (hot_deal (body x)),
         hot_deal_expiry := set_optional (upd_hot_deal_expiry req) (hot_deal_expiry (body x)),
         featured := set_field (upd_featured req) (featured (body x))\<rparr>\<rparr>"

definition update_product ::
  "env \<Rightarrow> database option \<Rightarrow> string \<Rightarrow> ProductUpdateRequest \<Rightarrow> string \<Rightarrow> outcome" where
  "update_product e db product_id req user_id =
     (case db of
        None \<Rightarrow> (Inl (HTTPException 404 ''Not found''), db)
      | Some d \<Rightarrow>
          (case ObjectId product_id of
             None \<Rightarrow> (Inl InvalidId, db)
           | Some i \<Rightarrow>
               (case find_one (\<lambda>x. oid x = i) (product_coll d) of
                  None \<Rightarrow> (Inl (HTTPException 404 ''Not found''), db)
                | Some prd \<Rightarrow>
                    if affiliate_id (body prd) \<noteq> user_id
                    then (Inl (HTTPException 403 ''Not owner''), db)
                    else
                      (case write_coll e 0 product_coll_update
                              (update_one (\<lambda>x. oid x = i) (set_updates req (clock e))) d of
                         Inl err \<Rightarrow> (Inl err, db)
                       | Inr d' \<Rightarrow> (Inr Ok, Some d')))))"

section \<open>Admin settings: platform links\<close>

text \<open>
  \<^verbatim>\<open>GET /admin/links\<close>. The settings are the first document of their collection:
  \<^verbatim>\<open>db["adminsettings"].find_one({}) if db else None\<close>.
\<close>

definition settings_singleton :: "database option \<Rightarrow> AdminSettings doc option" where
  "settings_singleton db =
     (case db of None \<Rightarrow> None | Some d \<Rightarrow> find_one (\<lambda>_. True) (adminsettings_coll d))"

definition get_links :: "database option \<Rightarrow> reply" where
  "get_links db =
     (case settings_singleton db of
        None \<Rightarrow> Ok_links Map.empty
      | Some x \<Rightarrow> Ok_links (links (body x)))"

text \<open>
  \<^verbatim>\<open>POST /admin/links\<close>. Write 0 is the upsert of the settings; write 1 is the audit
  entry, inside \<^verbatim>\<open>try\<close>. With no store configured, \<^verbatim>\<open>db["adminsettings"]\<close> raises.
\<close>

definition set_links ::
  "env \<Rightarrow> database option \<Rightarrow> AdminLinks \<Rightarrow> string option \<Rightarrow> string option \<Rightarrow> outcome" where
  "set_links e db payload admin_email admin_password =
     (if \<not> (admin_email = Some ''shekharxlr8@gmail.com'' \<and> admin_password = Some ''Shekhar_4t7'')
      then (Inl (HTTPException 401 ''Invalid admin credentials''), db)
      else
        (case db of
           None \<Rightarrow> (Inl TypeError, db)
         | Some d \<Rightarrow>
             (case (case find_one (\<lambda>_. True) (adminsettings_coll d) of
                      Some existing \<Rightarrow>
                        map_sum id Some
                          (write_coll e 0 adminsettings_coll_update
                             (update_one (\<lambda>x. oid x = oid existing)
                                (\<lambda>x. x\<lparr>updated_at := clock e,
                                        body := (body x)\<lparr>links := payload_links payload\<rparr>\<rparr>)) d)
                    | None \<Rightarrow>
                        map_sum id snd
                          (create_document e 0 adminsettings_coll_update
                             \<lparr>links = payload_links payload\<rparr> db)) of
                Inl err \<Rightarrow> (Inl err, db)
              | Inr db1 \<Rightarrow>
                  (Inr Ok,
                   swallow db1
                     (create_document e 1 adminauditlog_coll_update
                        \<lparr>admin_id = ''hardcoded-admin'', action = ''update_links'',
                         details = payload_links payload\<rparr> db1)))))"

section \<open>Redirect endpoints for tracking\<close>

text \<open>\<^verbatim>\<open>GET /r/{platform}\<close>. Write 0 is the click, inside \<^verbatim>\<open>try\<close>.\<close>

definition redirect_platform ::
  "env \<Rightarrow> database option \<Rightarrow> string \<Rightarrow> Request \<Rightarrow> string option \<Rightarrow> outcome" where
  "redirect_platform e db platform request user_id =
     (let doc = settings_singleton db;
          url = (case doc of None \<Rightarrow> None | Some x \<Rightarrow> links (body x) (py_lower platform))
      in case if_truthy url of
           None \<Rightarrow> (Inl (HTTPException 404 ''Link not available yet.''), db)
         | Some u \<Rightarrow>
             (Inr (RedirectResponse u),
              swallow db
                (create_document e 0 click_coll_update
                   \<lparr>click_type = ''logo'', click_user_id = user_id, click_product_id = None,
                    click_affiliate_id = None, ip = map_option host (client request),
                    meta = [''platform'' \<mapsto> platform]\<rparr> db)))"

text \<open>
  The product a handler looks up: nothing when no store is configured, and
  \<^verbatim>\<open>ObjectId(product_id)\<close> raises on a malformed identifier otherwise.
\<close>

definition find_product :: "database option \<Rightarrow> string \<Rightarrow> exn + Product doc option" where
  "find_product db product_id =
     (case db of
        None \<Rightarrow> Inr None
      | Some d \<Rightarrow>
          (case ObjectId product_id of
             None \<Rightarrow> Inl InvalidId
           | Some i \<Rightarrow> Inr (find_one (\<lambda>x. oid x = i) (product_coll d))))"

text \<open>
  \<^verbatim>\<open>GET /r/product/{product_id}\<close>. Write 0 is the increment of the counter, write 1
  the click; each is inside its own \<^verbatim>\<open>try\<close>.
\<close>

definition inc_clicks :: "Product doc \<Rightarrow> Product doc" where
  "inc_clicks x = x\<lparr>body := (body x)\<lparr>clicks := clicks (body x) + 1\<rparr>\<rparr>"

definition redirect_product ::
  "env \<Rightarrow> database option \<Rightarrow> string \<Rightarrow> Request \<Rightarrow> string option \<Rightarrow> outcome" where
  "redirect_product e db product_id request user_id =
     (case find_product db product_id of
        Inl err \<Rightarrow> (Inl err, db)
      | Inr None \<Rightarrow> (Inl (HTTPException 404 ''Affiliate link not available''), db)
      | Inr (Some prd) \<Rightarrow>
          (case if_truthy (affiliate_link (body prd)) of
             None \<Rightarrow> (Inl (HTTPException 404 ''Affiliate link not available''), db)
           | Some link \<Rightarrow>
               (let db1 = swallow db
                      (case db of
                         None \<Rightarrow> Inl TypeError
                       | Some d \<Rightarrow>
                           (case ObjectId product_id of
                              None \<Rightarrow> Inl InvalidId
                            | Some i \<Rightarrow>
                                map_sum id (\<lambda>d'. ((), Some d'))
                                  (write_coll e 0 product_coll_update
                                     (update_one (\<lambda>x. oid x = i) inc_clicks) d)));
                    db2 = swallow db1
                      (create_document e 1 click_coll_update
                         \<lparr>click_type = ''product'', click_user_id = user_id,
                          click_product_id = Some product_id,
                          click_affiliate_id = Some (affiliate_id (body prd)),
                          ip = map_option host (client request), meta = Map.empty\<rparr> db1)
                in (Inr (RedirectResponse link), db2))))"

section \<open>Orders\<close>

text \<open>\<^verbatim>\<open>POST /orders\<close>\<close>

definition create_order :: "env \<Rightarrow> database option \<Rightarrow> string \<Rightarrow> string option \<Rightarrow> outcome" where
  "create_order e db product_id user_id =
     (case find_product db product_id of
        Inl err \<Rightarrow> (Inl err, db)
      | Inr None \<Rightarrow> (Inl (HTTPException 404 ''Product not found''), db)
      | Inr (Some prd) \<Rightarrow>
          (case create_document e 0 order_coll_update
                  \<lparr>order_user_id = (case if_truthy user_id of None \<Rightarrow> ''guest'' | Some u \<Rightarrow> u),
                   order_product_id = product_id,
                   order_affiliate_id = affiliate_id (body prd), status = ''Redirected'',
                   vendor_url = affiliate_link (body prd)\<rparr> db of
             Inl err \<Rightarrow> (Inl err, db)
           | Inr (new_oid, db') \<Rightarrow> (Inr (Ok_order_id new_oid), db')))"

section \<open>Sequences of requests\<close>

text \<open>
  The requests that write to the store, each with the surroundings it runs in, and the
  store after a sequence of them. A request that raises leaves the store as it found it.
\<close>

datatype call =
    Create_product env ProductCreateRequest string
  | Update_product env string ProductUpdateRequest string
  | Set_links env AdminLinks "string option" "string option"
  | Redirect_platform env string Request "string option"
  | Redirect_product env string Request "string option"
  | Create_order env string "string option"

fun perform :: "call \<Rightarrow> database option \<Rightarrow> outcome" where
  "perform (Create_product e req user_id) db = create_product e db req user_id"
| "perform (Update_product e product_id req user_id) db = update_product e db product_id req user_id"
| "perform (Set_links e payload admin_email admin_password) db =
     set_links e db payload admin_email admin_password"
| "perform (Redirect_platform e platform request user_id) db =
     redirect_platform e db platform request user_id"
| "perform (Redirect_product e product_id request user_id) db =
     redirect_product e db product_id request user_id"
| "perform (Create_order e product_id user_id) db = create_order e db product_id user_id"

fun run :: "call list \<Rightarrow> database option \<Rightarrow> database option" where
  "run [] db = db"
| "run (c # cs) db = run cs (snd (perform c db))"

text \<open>
  The products of a store, and the two properties of the counters: none is negative,
  and, product by product in the order of the collection, none has decreased and no
  owner has changed.
\<close>

definition products_of :: "database option \<Rightarrow> Product doc list" where
  "products_of db = (case db of None \<Rightarrow> [] | Some d \<Rightarrow> product_coll d)"

definition counters_nonneg :: "Product doc list \<Rightarrow> bool" where
  "counters_nonneg ps = list_all (\<lambda>p. 0 \<le> clicks (body p) \<and> 0 \<le> orders (body p)) ps"

definition counters_grow :: "Product doc list \<Rightarrow> Product doc list \<Rightarrow> bool" where
  "counters_grow ps ps' =
     (length ps \<le> length ps'
      \<and> list_all (\<lambda>i. clicks (body (ps ! i)) \<le> clicks (body (ps' ! i))
                     \<and> orders (body (ps ! i)) \<le> orders (body (ps' ! i))
                     \<and> affiliate_id (body (ps' ! i)) = affiliate_id (body (ps ! i)))
          [0..<length ps])"

section \<open>The search of the specification\<close>


section \<open>Sample data\<close>

text \<open>
  A store with the affiliate \<open>A\<close>, the product \<open>P\<close> that \<open>A\<close> listed with the link
  \<^verbatim>\<open>https://vendor/x\<close>, and the states of the platform links used below. The sample
  surroundings read the clock at 100 and take the failing writes as an argument.
\<close>

definition sample_env :: "(nat \<Rightarrow> bool) \<Rightarrow> env" where
  "sample_env failing =
     \<lparr>clock = 100,
      new_id = (\<lambda>k. if k = 0 then ''0000000000000000000000a0'' else ''0000000000000000000000a1''),
      raises = failing\<rparr>"


definition empty_db :: database where
  "empty_db = \<lparr>user_coll = [], product_coll = [], order_coll = [], click_coll = [],
               adminsettings_coll = [], adminauditlog_coll = []\<rparr>"

definition affiliate_A :: "User doc" where
  "affiliate_A =
     \<lparr>oid = ''000000000000000000000001'', created_at = 1, updated_at = 1,
      body = \<lparr>role = ''affiliate'', name = ''A'', email = ''a@example.org'', password_hash = ''h'',
              phone = None, photo_url = None, age = None, gender = None, is_active = True,
              ad_free = False, subscription_expiry = None\<rparr>\<rparr>"

definition product_P :: "Product doc" where
  "product_P =
     \<lparr>oid = ''000000000000000000000002'', created_at = 2, updated_at = 2,
      body = \<lparr>affiliate_id = ''000000000000000000000001'', images = [], title = ''x'',
              description = None, price = 10, vendor = ''amazon'', category = Some ''toys'',
              tags = [], rating = None, hot_deal = False, hot_deal_expiry = None,
              featured = False, clicks = 0, orders = 0,
              affiliate_link = Some ''https://vendor/x''\<rparr>\<rparr>"

definition shop_db :: database where
  "shop_db = empty_db\<lparr>user_coll := [affiliate_A], product_coll := [product_P]\<rparr>"



definition settings_doc :: "(string \<rightharpoonup> string) \<Rightarrow> AdminSettings doc" where
  "settings_doc m =
     \<lparr>oid = ''000000000000000000000003'', created_at = 3, updated_at = 3, body = \<lparr>links = m\<rparr>\<rparr>"

definition linked_db :: "(string \<rightharpoonup> string) \<Rightarrow> database" where
  "linked_db m = shop_db\<lparr>adminsettings_coll := [settings_doc m]\<rparr>"

definition visitor :: Request where
  "visitor = \<lparr>client = Some \<lparr>host = ''203.0.113.7'', port = 4711\<rparr>\<rparr>"

text \<open>The partial payload \<^verbatim>\<open>{price: 999}\<close>.\<close>

definition price_only :: ProductUpdateRequest where
  "price_only =
     \<lparr>upd_images = None, upd_title = None, upd_description = None, upd_price = Some 999,
      upd_vendor = None, upd_category = None, upd_tags = None, upd_rating = None,
      upd_affiliate_link = None, upd_hot_deal = None, upd_hot_deal_expiry = None,
      upd_featured = None\<rparr>"

text \<open>
  The scenario of the specification: in a store that holds only the affiliate \<open>A\<close>,
  \<open>A\<close> lists a product with the link \<^verbatim>\<open>https://vendor/x\<close>, a visitor follows the
  redirect to it, and \<open>A\<close> changes its price.
\<close>

definition listing :: ProductCreateRequest where
  "listing =
     \<lparr>new_images = [], new_title = ''x'', new_description = None, new_price = 10,
      new_vendor = ''amazon'', new_category = Some ''toys'', new_tags = [], new_rating = None,
      new_affiliate_link = Some ''https://vendor/x'', new_hot_deal = False,
      new_hot_deal_expiry = None\<rparr>"

definition users_db :: database where
  "users_db = empty_db\<lparr>user_coll := [affiliate_A]\<rparr>"

definition scenario :: "call list" where
  "scenario =
     [Create_product (sample_env (\<lambda>_. False)) listing ''000000000000000000000001'',
      Redirect_product (sample_env (\<lambda>_. False)) ''0000000000000000000000a0'' visitor None,
      Update_product (sample_env (\<lambda>_. False)) ''0000000000000000000000a0'' price_only
        ''000000000000000000000001'']"

definition listed :: "Product doc" where
  "listed =
     \<lparr>oid = ''0000000000000000000000a0'', created_at = 100, updated_at = 100,
      body = \<lparr>affiliate_id = ''000000000000000000000001'', images = [], title = ''x'',
              description = None, price = 10, vendor = ''amazon'', category = Some ''toys'',
              tags = [], rating = None, hot_deal = False, hot_deal_expiry = None,
              featured = False, clicks = 0, orders = 0,
              affiliate_link = Some ''https://vendor/x''\<rparr>\<rparr>"

section \<open>Basic facts\<close>

text \<open>Reading and updating a collection, and the sample data evaluated.\<close>

lemma lower_Flipkart: "py_lower ''Flipkart'' = ''flipkart''"
  by code_simp

lemma singleton_shop_db: "settings_singleton (Some shop_db) = None"
  by (simp add: settings_singleton_def shop_db_def empty_db_def find_one_def)

lemma singleton_linked_db: "settings_singleton (Some (linked_db m)) = Some (settings_doc m)"
  by (simp add: settings_singleton_def linked_db_def find_one_def)

lemma find_one_first: "find_one (\<lambda>_. True) xs = (case xs of [] \<Rightarrow> None | x # _ \<Rightarrow> Some x)"
  by (cases xs) (simp_all add: find_one_def)

lemma lower_amazon: "py_lower ''amazon'' = ''amazon''"
  by code_simp

lemma lower_Amazon: "py_lower ''Amazon'' = ''amazon''"
  by code_simp

lemma find_one_split:
  "find_one P xs = Some x \<Longrightarrow> \<exists>pre post. xs = pre @ x # post \<and> (\<forall>y\<in>set pre. \<not> P y) \<and> P x"
proof (induction xs)
  case Nil
  then show ?case by (simp add: find_one_def)
next
  case (Cons a xs)
  show ?case
  proof (cases "P a")
    case True
    with Cons.prems have "a = x" by (simp add: find_one_def)
    with True have "a # xs = [] @ x # xs \<and> (\<forall>y\<in>set []. \<not> P y) \<and> P x" by simp
    then show ?thesis by blast
  next
    case False
    with Cons.prems have "find_one P xs = Some x" by (simp add: find_one_def)
    from Cons.IH [OF this] obtain pre post where
      "xs = pre @ x # post" "\<forall>y\<in>set pre. \<not> P y" "P x" by blast
    with False have "a # xs = (a # pre) @ x # post \<and> (\<forall>y\<in>set (a # pre). \<not> P y) \<and> P x"
      by simp
    then show ?thesis by blast
  qed
qed

lemma update_one_split:
  "\<forall>y\<in>set pre. \<not> P y \<Longrightarrow> P x \<Longrightarrow> update_one P f (pre @ x # post) = pre @ f x # post"
  by (induction pre) simp_all

lemma find_product_Some:
  "find_product db product_id = Inr (Some prd) \<Longrightarrow>
   \<exists>d i. db = Some d \<and> ObjectId product_id = Some i
       \<and> find_one (\<lambda>x. oid x = i) (product_coll d) = Some prd"
  by (auto simp: find_product_def split: option.splits)

lemma oid_P: "ObjectId ''000000000000000000000002'' = Some ''000000000000000000000002''"
  by code_simp

lemma find_product_P:
  "find_product (Some shop_db) ''000000000000000000000002'' = Inr (Some product_P)"
  by (simp add: find_product_def oid_P shop_db_def find_one_def product_P_def)


section \<open>Setting the platform links without the credential\<close>

text \<open>
  C10. When the credential is not the fixed pair of e-mail address and password,
  \<open>set_links\<close> raises 401 (Unauthorized) and the store is the one it started from:
  the settings are as they were and no audit entry is appended.
\<close>

theorem set_links_unauthorized:
  assumes "\<not> (admin_email = Some ''shekharxlr8@gmail.com'' \<and> admin_password = Some ''Shekhar_4t7'')"
  shows "set_links e db payload admin_email admin_password =
           (Inl (HTTPException 401 ''Invalid admin credentials''), db)"
  using assms unfolding set_links_def by simp

theorem set_links_unauthorized_witness:
  "set_links (sample_env (\<lambda>_. False)) (Some (linked_db [''amazon'' \<mapsto> ''https://a'']))
      \<lparr>payload_links = [''amazon'' \<mapsto> ''https://b'']\<rparr>
      (Some ''shekharxlr8@gmail.com'') (Some ''guess'')
    = (Inl (HTTPException 401 ''Invalid admin credentials''),
       Some (linked_db [''amazon'' \<mapsto> ''https://a'']))"
  using set_links_unauthorized
    [where admin_email = "Some ''shekharxlr8@gmail.com''" and admin_password = "Some ''guess''"]
  by simp

section \<open>Redirecting to a platform that has no link\<close>

text \<open>
  C6. When there are no settings, or the links of the settings have no entry for the
  platform (the key the handler looks up, the lower-cased name), \<open>redirect_platform\<close>
  raises 404 with the detail \<^verbatim>\<open>Link not available yet.\<close> and the store is the one it
  started from: no click is appended and nothing else is written.
\<close>

theorem redirect_platform_not_found:
  assumes "case settings_singleton db of
             None \<Rightarrow> True
           | Some x \<Rightarrow> links (body x) (py_lower platform) = None"
  shows "redirect_platform e db platform request user_id =
           (Inl (HTTPException 404 ''Link not available yet.''), db)"
  using assms unfolding redirect_platform_def
  by (simp add: if_truthy_def split: option.splits)

theorem redirect_platform_not_found_witness:
  "redirect_platform (sample_env (\<lambda>_. False)) (Some shop_db) ''amazon'' visitor None =
     (Inl (HTTPException 404 ''Link not available yet.''), Some shop_db)
   \<and> redirect_platform (sample_env (\<lambda>_. False)) (Some (linked_db [''amazon'' \<mapsto> ''https://a'']))
        ''Flipkart'' visitor None =
     (Inl (HTTPException 404 ''Link not available yet.''),
      Some (linked_db [''amazon'' \<mapsto> ''https://a'']))"
proof -
  have "links (body (settings_doc [''amazon'' \<mapsto> ''https://a''])) (py_lower ''Flipkart'') = None"
    by (simp add: settings_doc_def lower_Flipkart)
  then show ?thesis
    using redirect_platform_not_found [where db = "Some shop_db" and platform = "''amazon''"]
      redirect_platform_not_found
        [where db = "Some (linked_db [''amazon'' \<mapsto> ''https://a''])"
           and platform = "''Flipkart''"]
    by (simp add: singleton_shop_db singleton_linked_db)
qed

section \<open>Round trip of the platform links\<close>

text \<open>
  C8. After \<open>set_links\<close> has returned \<open>ok\<close> for the payload \<open>M\<close>, \<open>get_links\<close> on
  the resulting store returns exactly \<open>M\<close> (however many settings documents the store
  holds: both handlers use the first one); and with no settings document \<open>get_links\<close>
  returns the empty map.
\<close>

theorem links_round_trip:
  "(set_links e db payload admin_email admin_password = (Inr Ok, db') \<longrightarrow>
      get_links db' = Ok_links (payload_links payload))
   \<and> (settings_singleton db = None \<longrightarrow> get_links db = Ok_links Map.empty)"
proof (intro conjI impI)
  assume ok: "set_links e db payload admin_email admin_password = (Inr Ok, db')"
  show "get_links db' = Ok_links (payload_links payload)"
  proof (cases db)
    case None
    with ok show ?thesis by (simp add: set_links_def split: if_splits)
  next
    case (Some d)
    show ?thesis
    proof (cases "adminsettings_coll d")
      case Nil
      with ok Some show ?thesis
        by (auto simp: set_links_def find_one_first create_document_def write_coll_def
            swallow_def get_links_def settings_singleton_def split: if_splits)
    next
      case (Cons x xs)
      with ok Some show ?thesis
        by (auto simp: set_links_def find_one_first create_document_def write_coll_def
            swallow_def get_links_def settings_singleton_def split: if_splits)
    qed
  qed
next
  assume "settings_singleton db = None"
  then show "get_links db = Ok_links Map.empty" by (simp add: get_links_def)
qed

lemma set_links_sample:
  "set_links (sample_env (\<lambda>k. k = 1)) (Some (linked_db [''amazon'' \<mapsto> ''https://a'']))
      \<lparr>payload_links = [''Amazon'' \<mapsto> ''https://b'']\<rparr>
      (Some ''shekharxlr8@gmail.com'') (Some ''Shekhar_4t7'')
   = (Inr Ok, Some ((linked_db [''amazon'' \<mapsto> ''https://a''])
        \<lparr>adminsettings_coll := [(settings_doc [''Amazon'' \<mapsto> ''https://b''])\<lparr>updated_at := 100\<rparr>]\<rparr>))"
  by (simp add: set_links_def sample_env_def linked_db_def find_one_first settings_doc_def
      write_coll_def create_document_def swallow_def)

theorem links_round_trip_witness:
  "set_links (sample_env (\<lambda>k. k = 1)) (Some (linked_db [''amazon'' \<mapsto> ''https://a'']))
      \<lparr>payload_links = [''Amazon'' \<mapsto> ''https://b'']\<rparr>
      (Some ''shekharxlr8@gmail.com'') (Some ''Shekhar_4t7'')
   = (Inr Ok, Some ((linked_db [''amazon'' \<mapsto> ''https://a''])
        \<lparr>adminsettings_coll := [(settings_doc [''Amazon'' \<mapsto> ''https://b''])\<lparr>updated_at := 100\<rparr>]\<rparr>))
   \<and> get_links (Some ((linked_db [''amazon'' \<mapsto> ''https://a''])
        \<lparr>adminsettings_coll := [(settings_doc [''Amazon'' \<mapsto> ''https://b''])\<lparr>updated_at := 100\<rparr>]\<rparr>))
       = Ok_links [''Amazon'' \<mapsto> ''https://b'']
   \<and> settings_singleton (Some shop_db) = None
   \<and> get_links (Some shop_db) = Ok_links Map.empty"
  using links_round_trip
    [where e = "sample_env (\<lambda>k. k = 1)" and db = "Some (linked_db [''amazon'' \<mapsto> ''https://a''])"
       and payload = "\<lparr>payload_links = [''Amazon'' \<mapsto> ''https://b'']\<rparr>"
       and admin_email = "Some ''shekharxlr8@gmail.com''" and admin_password = "Some ''Shekhar_4t7''"
       and db' = "Some ((linked_db [''amazon'' \<mapsto> ''https://a''])
        \<lparr>adminsettings_coll := [(settings_doc [''Amazon'' \<mapsto> ''https://b''])\<lparr>updated_at := 100\<rparr>]\<rparr>)"]
    links_round_trip [where db = "Some shop_db"]
    set_links_sample singleton_shop_db
  by simp

section \<open>Resolving a platform name\<close>

text \<open>
  C2, as stated, fails: the links \<^verbatim>\<open>{"Amazon": "https://a"}\<close> hold a key that equals
  the request \<^verbatim>\<open>amazon\<close> up to letter case, and the redirect raises 404.
\<close>

theorem redirect_platform_capital_key_counterexample:
  "links (body (settings_doc [''Amazon'' \<mapsto> ''https://a''])) ''Amazon'' = Some ''https://a''
   \<and> py_lower ''Amazon'' = py_lower ''amazon''
   \<and> redirect_platform (sample_env (\<lambda>_. False)) (Some (linked_db [''Amazon'' \<mapsto> ''https://a'']))
        ''amazon'' visitor None
       = (Inl (HTTPException 404 ''Link not available yet.''),
          Some (linked_db [''Amazon'' \<mapsto> ''https://a'']))"
  by (simp add: redirect_platform_def singleton_linked_db settings_doc_def lower_amazon
      lower_Amazon if_truthy_def)

text \<open>
  C2, amended. The handler ignores the letter case of the request only: it succeeds
  with the URL \<open>u\<close> exactly when the settings exist and their links hold the non-empty
  \<open>u\<close> under the lower-cased request, a key compared as it is stored; and two requests
  that are equal up to letter case have the same result.
\<close>

theorem redirect_platform_resolves:
  "(fst (redirect_platform e db platform request user_id) = Inr (RedirectResponse u) \<longleftrightarrow>
      (\<exists>x. settings_singleton db = Some x \<and> links (body x) (py_lower platform) = Some u \<and> u \<noteq> []))
   \<and> (py_lower platform = py_lower platform' \<longrightarrow>
        fst (redirect_platform e db platform request user_id) =
        fst (redirect_platform e db platform' request user_id))"
  by (auto simp: redirect_platform_def if_truthy_def Let_def split: option.splits)

theorem redirect_platform_resolves_witness:
  "fst (redirect_platform (sample_env (\<lambda>_. False)) (Some (linked_db [''amazon'' \<mapsto> ''https://a'']))
          ''Amazon'' visitor None) = Inr (RedirectResponse ''https://a'')
   \<and> py_lower ''Amazon'' = py_lower ''amazon''
   \<and> fst (redirect_platform (sample_env (\<lambda>_. False)) (Some (linked_db [''amazon'' \<mapsto> ''https://a'']))
          ''amazon'' visitor None) = Inr (RedirectResponse ''https://a'')"
  using redirect_platform_resolves
    [where e = "sample_env (\<lambda>_. False)" and db = "Some (linked_db [''amazon'' \<mapsto> ''https://a''])"
       and platform = "''Amazon''" and platform' = "''amazon''" and request = visitor
       and user_id = None and u = "''https://a''"]
  by (auto simp: singleton_linked_db settings_doc_def lower_amazon lower_Amazon)

section \<open>Redirecting to a product\<close>

text \<open>
  C1. For a stored product with a non-empty \<open>affiliate_link\<close>, when the two writes of
  the handler go through, \<open>redirect_product\<close> returns the redirect to that link; the
  store it leaves differs from the one it found in two places only: the product found
  (the first one with the identifier) has its \<open>clicks\<close> counter raised by exactly 1,
  every other field and every other product being as before, and exactly one click is
  appended, of type \<^verbatim>\<open>product\<close>, with the given \<open>user_id\<close> and \<open>product_id\<close>, the
  product's \<open>affiliate_id\<close>, the caller's address and an empty \<open>meta\<close>.
\<close>

theorem redirect_product_success:
  assumes "find_product db product_id = Inr (Some prd)"
    and "affiliate_link (body prd) = Some link" and "link \<noteq> []"
    and "\<not> raises e 0" and "\<not> raises e 1"
  shows "\<exists>d i pre post.
           db = Some d \<and> ObjectId product_id = Some i \<and> oid prd = i
           \<and> product_coll d = pre @ prd # post \<and> (\<forall>x\<in>set pre. oid x \<noteq> i)
           \<and> redirect_product e db product_id request user_id =
               (Inr (RedirectResponse link),
                Some (d\<lparr>product_coll :=
                           pre @ prd\<lparr>body := (body prd)\<lparr>clicks := clicks (body prd) + 1\<rparr>\<rparr> # post,
                         click_coll := click_coll d @
                           [\<lparr>oid = new_id e 1, created_at = clock e, updated_at = clock e,
                             body = \<lparr>click_type = ''product'', click_user_id = user_id,
                                     click_product_id = Some product_id,
                                     click_affiliate_id = Some (affiliate_id (body prd)),
                                     ip = map_option host (client request),
                                     meta = Map.empty\<rparr>\<rparr>]\<rparr>))"
proof -
  from assms(1) obtain d i where db: "db = Some d" and i: "ObjectId product_id = Some i"
    and f: "find_one (\<lambda>x. oid x = i) (product_coll d) = Some prd"
    using find_product_Some by blast
  from find_one_split [OF f] obtain pre post where
    xs: "product_coll d = pre @ prd # post" and pre: "\<forall>y\<in>set pre. oid y \<noteq> i" and p: "oid prd = i"
    by blast
  have u: "update_one (\<lambda>x. oid x = i) inc_clicks (product_coll d) = pre @ inc_clicks prd # post"
    unfolding xs using pre p by (intro update_one_split) auto
  have "redirect_product e db product_id request user_id =
               (Inr (RedirectResponse link),
                Some (d\<lparr>product_coll :=
                           pre @ prd\<lparr>body := (body prd)\<lparr>clicks := clicks (body prd) + 1\<rparr>\<rparr> # post,
                         click_coll := click_coll d @
                           [\<lparr>oid = new_id e 1, created_at = clock e, updated_at = clock e,
                             body = \<lparr>click_type = ''product'', click_user_id = user_id,
                                     click_product_id = Some product_id,
                                     click_affiliate_id = Some (affiliate_id (body prd)),
                                     ip = map_option host (client request),
                                     meta = Map.empty\<rparr>\<rparr>]\<rparr>))"
    using assms db i u
    by (simp add: redirect_product_def if_truthy_def swallow_def write_coll_def
        create_document_def inc_clicks_def)
  with db i xs pre p show ?thesis by blast
qed

theorem redirect_product_success_witness:
  "redirect_product (sample_env (\<lambda>_. False)) (Some shop_db) ''000000000000000000000002'' visitor
      (Some ''000000000000000000000009'') =
     (Inr (RedirectResponse ''https://vendor/x''),
      Some (shop_db\<lparr>product_coll := [product_P\<lparr>body := (body product_P)\<lparr>clicks := 1\<rparr>\<rparr>],
              click_coll :=
                [\<lparr>oid = ''0000000000000000000000a1'', created_at = 100, updated_at = 100,
                  body = \<lparr>click_type = ''product'',
                          click_user_id = Some ''000000000000000000000009'',
                          click_product_id = Some ''000000000000000000000002'',
                          click_affiliate_id = Some ''000000000000000000000001'',
                          ip = Some ''203.0.113.7'', meta = Map.empty\<rparr>\<rparr>]\<rparr>))"
proof -
  have pc: "product_coll shop_db = [product_P]" and cc: "click_coll shop_db = []"
    by (simp_all add: shop_db_def empty_db_def)
  have al: "affiliate_link (body product_P) = Some ''https://vendor/x''"
    and cl: "clicks (body product_P) = 0"
    and af: "affiliate_id (body product_P) = ''000000000000000000000001''"
    by (simp_all add: product_P_def)
  from redirect_product_success
    [OF find_product_P al, where e = "sample_env (\<lambda>_. False)" and request = visitor
       and user_id = "Some ''000000000000000000000009''"]
  obtain d i pre post where
    "Some shop_db = Some d" "product_coll d = pre @ product_P # post"
    "redirect_product (sample_env (\<lambda>_. False)) (Some shop_db) ''000000000000000000000002''
       visitor (Some ''000000000000000000000009'') =
               (Inr (RedirectResponse ''https://vendor/x''),
                Some (d\<lparr>product_coll :=
                           pre @ product_P\<lparr>body := (body product_P)\<lparr>clicks := clicks (body product_P) + 1\<rparr>\<rparr> # post,
                         click_coll := click_coll d @
                           [\<lparr>oid = new_id (sample_env (\<lambda>_. False)) 1,
                             created_at = clock (sample_env (\<lambda>_. False)),
                             updated_at = clock (sample_env (\<lambda>_. False)),
                             body = \<lparr>click_type = ''product'',
                                     click_user_id = Some ''000000000000000000000009'',
                                     click_product_id = Some ''000000000000000000000002'',
                                     click_affiliate_id = Some (affiliate_id (body product_P)),
                                     ip = map_option host (client visitor),
                                     meta = Map.empty\<rparr>\<rparr>]\<rparr>))"
    by (auto simp: sample_env_def)
  moreover from this(1,2) pc have "d = shop_db" "pre = []" "post = []"
    by (auto simp: append_eq_Cons_conv Cons_eq_append_conv)
  ultimately show ?thesis
    by (simp add: cc cl af sample_env_def visitor_def)
qed

section \<open>Writes that raise inside a try block\<close>

text \<open>
  C7. Whatever the writes inside the \<^verbatim>\<open>try\<close> blocks do, the handler returns its
  success result. When the settings hold a link for the platform, \<open>redirect_platform\<close>
  returns the redirect, and leaves the store as it was when the click insert raised.
  When the product exists with a link, \<open>redirect_product\<close> returns the redirect, and
  leaves the store as it was when both the increment and the click insert raised. With
  the right credential, a configured store and the settings written, \<open>set_links\<close>
  returns \<open>ok\<close>, and the audit log is as it was when the audit insert raised.
\<close>

theorem telemetry_failures_swallowed:
  "(settings_singleton db = Some s \<and> links (body s) (py_lower platform) = Some u \<and> u \<noteq> [] \<longrightarrow>
      fst (redirect_platform e db platform request user_id) = Inr (RedirectResponse u)
      \<and> (raises e 0 \<longrightarrow> snd (redirect_platform e db platform request user_id) = db))
   \<and> (find_product db product_id = Inr (Some prd) \<and> affiliate_link (body prd) = Some link
        \<and> link \<noteq> [] \<longrightarrow>
      fst (redirect_product e db product_id request user_id) = Inr (RedirectResponse link)
      \<and> (raises e 0 \<and> raises e 1 \<longrightarrow>
           snd (redirect_product e db product_id request user_id) = db))
   \<and> (admin_email = Some ''shekharxlr8@gmail.com'' \<and> admin_password = Some ''Shekhar_4t7''
        \<and> db = Some d \<and> \<not> raises e 0 \<longrightarrow>
      fst (set_links e db payload admin_email admin_password) = Inr Ok
      \<and> (raises e 1 \<longrightarrow>
           (\<exists>d'. snd (set_links e db payload admin_email admin_password) = Some d'
              \<and> adminauditlog_coll d' = adminauditlog_coll d)))"
proof (intro conjI impI)
  assume "settings_singleton db = Some s \<and> links (body s) (py_lower platform) = Some u \<and> u \<noteq> []"
  then show "fst (redirect_platform e db platform request user_id) = Inr (RedirectResponse u)"
    by (simp add: redirect_platform_def if_truthy_def)
next
  assume "settings_singleton db = Some s \<and> links (body s) (py_lower platform) = Some u \<and> u \<noteq> []"
    and "raises e 0"
  then show "snd (redirect_platform e db platform request user_id) = db"
    by (simp add: redirect_platform_def if_truthy_def swallow_def create_document_def
        write_coll_def split: option.splits)
next
  assume "find_product db product_id = Inr (Some prd) \<and> affiliate_link (body prd) = Some link
        \<and> link \<noteq> []"
  then show "fst (redirect_product e db product_id request user_id) = Inr (RedirectResponse link)"
    by (simp add: redirect_product_def if_truthy_def Let_def)
next
  assume "find_product db product_id = Inr (Some prd) \<and> affiliate_link (body prd) = Some link
        \<and> link \<noteq> []" and "raises e 0 \<and> raises e 1"
  then show "snd (redirect_product e db product_id request user_id) = db"
    by (simp add: redirect_product_def if_truthy_def Let_def swallow_def create_document_def
        write_coll_def split: option.splits)
next
  assume a: "admin_email = Some ''shekharxlr8@gmail.com'' \<and> admin_password = Some ''Shekhar_4t7''
        \<and> db = Some d \<and> \<not> raises e 0"
  then show "fst (set_links e db payload admin_email admin_password) = Inr Ok"
    by (simp add: set_links_def create_document_def write_coll_def split: option.splits)
  assume "raises e 1"
  with a show "\<exists>d'. snd (set_links e db payload admin_email admin_password) = Some d'
              \<and> adminauditlog_coll d' = adminauditlog_coll d"
    by (simp add: set_links_def create_document_def write_coll_def swallow_def
        split: option.splits)
qed

theorem telemetry_failures_swallowed_witness:
  "redirect_platform (sample_env (\<lambda>_. True)) (Some (linked_db [''amazon'' \<mapsto> ''https://a'']))
      ''Amazon'' visitor None
     = (Inr (RedirectResponse ''https://a''), Some (linked_db [''amazon'' \<mapsto> ''https://a'']))
   \<and> redirect_product (sample_env (\<lambda>_. True)) (Some shop_db) ''000000000000000000000002'' visitor
        None
     = (Inr (RedirectResponse ''https://vendor/x''), Some shop_db)
   \<and> fst (set_links (sample_env (\<lambda>k. k = 1)) (Some shop_db)
        \<lparr>payload_links = [''amazon'' \<mapsto> ''https://a'']\<rparr>
        (Some ''shekharxlr8@gmail.com'') (Some ''Shekhar_4t7'')) = Inr Ok
   \<and> (\<exists>d'. snd (set_links (sample_env (\<lambda>k. k = 1)) (Some shop_db)
        \<lparr>payload_links = [''amazon'' \<mapsto> ''https://a'']\<rparr>
        (Some ''shekharxlr8@gmail.com'') (Some ''Shekhar_4t7'')) = Some d'
        \<and> adminauditlog_coll d' = adminauditlog_coll shop_db)"
proof -
  have r: "raises (sample_env f) k = f k" for f k
    by (simp add: sample_env_def)
  have l: "links (body (settings_doc [''amazon'' \<mapsto> ''https://a''])) (py_lower ''Amazon'')
      = Some ''https://a''"
    by (simp add: settings_doc_def lower_Amazon)
  have al: "affiliate_link (body product_P) = Some ''https://vendor/x''"
    by (simp add: product_P_def)
  note t = telemetry_failures_swallowed
    [where e = "sample_env (\<lambda>_. True)" and db = "Some (linked_db [''amazon'' \<mapsto> ''https://a''])"
       and s = "settings_doc [''amazon'' \<mapsto> ''https://a'']" and platform = "''Amazon''"
       and u = "''https://a''" and request = visitor and user_id = None]
  note p = telemetry_failures_swallowed
    [where e = "sample_env (\<lambda>_. True)" and db = "Some shop_db"
       and product_id = "''000000000000000000000002''" and prd = product_P
       and link = "''https://vendor/x''" and request = visitor and user_id = None]
  note a = telemetry_failures_swallowed
    [where e = "sample_env (\<lambda>k. k = 1)" and db = "Some shop_db" and d = shop_db
       and admin_email = "Some ''shekharxlr8@gmail.com''"
       and admin_password = "Some ''Shekhar_4t7''"
       and payload = "\<lparr>payload_links = [''amazon'' \<mapsto> ''https://a'']\<rparr>"]
  from t have 1: "redirect_platform (sample_env (\<lambda>_. True))
      (Some (linked_db [''amazon'' \<mapsto> ''https://a''])) ''Amazon'' visitor None
     = (Inr (RedirectResponse ''https://a''), Some (linked_db [''amazon'' \<mapsto> ''https://a'']))"
    by (simp add: prod_eq_iff singleton_linked_db l r)
  from p have 2: "redirect_product (sample_env (\<lambda>_. True)) (Some shop_db)
      ''000000000000000000000002'' visitor None
     = (Inr (RedirectResponse ''https://vendor/x''), Some shop_db)"
    by (simp add: prod_eq_iff find_product_P al r)
  from a have 3: "fst (set_links (sample_env (\<lambda>k. k = 1)) (Some shop_db)
        \<lparr>payload_links = [''amazon'' \<mapsto> ''https://a'']\<rparr>
        (Some ''shekharxlr8@gmail.com'') (Some ''Shekhar_4t7'')) = Inr Ok
   \<and> (\<exists>d'. snd (set_links (sample_env (\<lambda>k. k = 1)) (Some shop_db)
        \<lparr>payload_links = [''amazon'' \<mapsto> ''https://a'']\<rparr>
        (Some ''shekharxlr8@gmail.com'') (Some ''Shekhar_4t7'')) = Some d'
        \<and> adminauditlog_coll d' = adminauditlog_coll shop_db)"
    by (simp add: r)
  from 1 2 3 show ?thesis by simp
qed

section \<open>Updating a listing\<close>

text \<open>
  C5, as stated, fails in its last part: the stamp is the reading of the clock, and the
  handler does nothing to make it newer than the previous one. With the clock at 2, the
  update of the product stamped at 2 succeeds and leaves the stamp at 2.
\<close>

theorem update_product_stalled_clock_counterexample:
  "update_product ((sample_env (\<lambda>_. False))\<lparr>clock := 2\<rparr>) (Some shop_db)
      ''000000000000000000000002'' price_only ''000000000000000000000001''
     = (Inr Ok,
        Some (shop_db\<lparr>product_coll :=
                [product_P\<lparr>updated_at := 2, body := (body product_P)\<lparr>price := 999\<rparr>\<rparr>]\<rparr>))
   \<and> updated_at product_P = 2
   \<and> \<not> updated_at product_P
         < updated_at (product_P\<lparr>updated_at := 2, body := (body product_P)\<lparr>price := 999\<rparr>\<rparr>)"
  by (simp add: update_product_def oid_P find_one_def shop_db_def empty_db_def product_P_def
      write_coll_def sample_env_def set_updates_def price_only_def set_field_def
      set_optional_def)

text \<open>
  C5, amended. For an existing product and a request of its owner (the write going
  through), \<open>update_product\<close> returns \<open>ok\<close> and replaces the product found, and nothing
  else in the store, by a product in which every field the request supplies has the
  supplied value and every field the request leaves out has its old value (none becomes
  \<^verbatim>\<open>null\<close>); \<open>affiliate_id\<close>, \<open>clicks\<close>, \<open>orders\<close>, the identifier and \<open>created_at\<close>
  are as before; and \<open>updated_at\<close> is the reading of the clock at the request.
\<close>

theorem update_product_patch:
  assumes "find_product db product_id = Inr (Some prd)"
    and "affiliate_id (body prd) = user_id" and "\<not> raises e 0"
  shows "\<exists>d i pre post prd'.
           db = Some d \<and> ObjectId product_id = Some i \<and> oid prd = i
           \<and> product_coll d = pre @ prd # post \<and> (\<forall>x\<in>set pre. oid x \<noteq> i)
           \<and> update_product e db product_id req user_id =
               (Inr Ok, Some (d\<lparr>product_coll := pre @ prd' # post\<rparr>))
           \<and> images (body prd') = (case upd_images req of None \<Rightarrow> images (body prd) | Some v \<Rightarrow> v)
           \<and> title (body prd') = (case upd_title req of None \<Rightarrow> title (body prd) | Some v \<Rightarrow> v)
           \<and> description (body prd') =
               (case upd_description req of None \<Rightarrow> description (body prd) | Some v \<Rightarrow> Some v)
           \<and> price (body prd') = (case upd_price req of None \<Rightarrow> price (body prd) | Some v \<Rightarrow> v)
           \<and> vendor (body prd') = (case upd_vendor req of None \<Rightarrow> vendor (body prd) | Some v \<Rightarrow> v)
           \<and> category (body prd') =
               (case upd_category req of None \<Rightarrow> category (body prd) | Some v \<Rightarrow> Some v)
           \<and> tags (body prd') = (case upd_tags req of None \<Rightarrow> tags (body prd) | Some v \<Rightarrow> v)
           \<and> rating (body prd') =
               (case upd_rating req of None \<Rightarrow> rating (body prd) | Some v \<Rightarrow> Some v)
           \<and> affiliate_link (body prd') =
               (case upd_affiliate_link req of
                  None \<Rightarrow> affiliate_link (body prd) | Some v \<Rightarrow> Some v)
           \<and> hot_deal (body prd') =
               (case upd_hot_deal req of None \<Rightarrow> hot_deal (body prd) | Some v \<Rightarrow> v)
           \<and> hot_deal_expiry (body prd') =
               (case upd_hot_deal_expiry req of
                  None \<Rightarrow> hot_deal_expiry (body prd) | Some v \<Rightarrow> Some v)
           \<and> featured (body prd') =
               (case upd_featured req of None \<Rightarrow> featured (body prd) | Some v \<Rightarrow> v)
           \<and> affiliate_id (body prd') = affiliate_id (body prd)
           \<and> clicks (body prd') = clicks (body prd)
           \<and> orders (body prd') = orders (body prd)
           \<and> oid prd' = oid prd \<and> created_at prd' = created_at prd
           \<and> updated_at prd' = clock e"
proof -
  from assms(1) obtain d i where db: "db = Some d" and i: "ObjectId product_id = Some i"
    and f: "find_one (\<lambda>x. oid x = i) (product_coll d) = Some prd"
    using find_product_Some by blast
  from find_one_split [OF f] obtain pre post where
    xs: "product_coll d = pre @ prd # post" and pre: "\<forall>y\<in>set pre. oid y \<noteq> i" and p: "oid prd = i"
    by blast
  define prd' where "prd' = set_updates req (clock e) prd"
  have u: "update_one (\<lambda>x. oid x = i) (set_updates req (clock e)) (product_coll d)
      = pre @ prd' # post"
    unfolding xs prd'_def using pre p by (intro update_one_split) auto
  have r: "update_product e db product_id req user_id =
      (Inr Ok, Some (d\<lparr>product_coll := pre @ prd' # post\<rparr>))"
    using assms(2,3) db i f u by (simp add: update_product_def write_coll_def)
  have fields:
    "images (body prd') = (case upd_images req of None \<Rightarrow> images (body prd) | Some v \<Rightarrow> v)"
    "title (body prd') = (case upd_title req of None \<Rightarrow> title (body prd) | Some v \<Rightarrow> v)"
    "description (body prd') =
       (case upd_description req of None \<Rightarrow> description (body prd) | Some v \<Rightarrow> Some v)"
    "price (body prd') = (case upd_price req of None \<Rightarrow> price (body prd) | Some v \<Rightarrow> v)"
    "vendor (body prd') = (case upd_vendor req of None \<Rightarrow> vendor (body prd) | Some v \<Rightarrow> v)"
    "category (body prd') =
       (case upd_category req of None \<Rightarrow> category (body prd) | Some v \<Rightarrow> Some v)"
    "tags (body prd') = (case upd_tags req of None \<Rightarrow> tags (body prd) | Some v \<Rightarrow> v)"
    "rating (body prd') =
       (case upd_rating req of None \<Rightarrow> rating (body prd) | Some v \<Rightarrow> Some v)"
    "affiliate_link (body prd') =
       (case upd_affiliate_link req of None \<Rightarrow> affiliate_link (body prd) | Some v \<Rightarrow> Some v)"
    "hot_deal (body prd') =
       (case upd_hot_deal req of None \<Rightarrow> hot_deal (body prd) | Some v \<Rightarrow> v)"
    "hot_deal_expiry (body prd') =
       (case upd_hot_deal_expiry req of None \<Rightarrow> hot_deal_expiry (body prd) | Some v \<Rightarrow> Some v)"
    "featured (body prd') =
       (case upd_featured req of None \<Rightarrow> featured (body prd) | Some v \<Rightarrow> v)"
    by (simp_all add: prd'_def set_updates_def set_field_def set_optional_def)
  have kept:
    "affiliate_id (body prd') = affiliate_id (body prd)"
    "clicks (body prd') = clicks (body prd)"
    "orders (body prd') = orders (body prd)"
    "oid prd' = oid prd" "created_at prd' = created_at prd"
    "updated_at prd' = clock e"
    by (simp_all add: prd'_def set_updates_def)
  from db i p xs pre r fields kept show ?thesis
    by (intro exI [of _ d] exI [of _ i] exI [of _ pre] exI [of _ post] exI [of _ prd']) simp
qed

theorem update_product_patch_witness:
  "\<exists>prd'. update_product (sample_env (\<lambda>_. False)) (Some shop_db) ''000000000000000000000002''
            price_only ''000000000000000000000001''
          = (Inr Ok, Some (shop_db\<lparr>product_coll := [prd']\<rparr>))
      \<and> price (body prd') = 999 \<and> title (body prd') = ''x''
      \<and> category (body prd') = Some ''toys'' \<and> description (body prd') = None
      \<and> affiliate_link (body prd') = Some ''https://vendor/x''
      \<and> clicks (body prd') = 0 \<and> orders (body prd') = 0
      \<and> updated_at product_P = 2 \<and> updated_at prd' = 100"
proof -
  have pc: "product_coll shop_db = [product_P]"
    by (simp add: shop_db_def empty_db_def)
  have own: "affiliate_id (body product_P) = ''000000000000000000000001''"
    by (simp add: product_P_def)
  have quiet: "\<not> raises (sample_env (\<lambda>_. False)) 0"
    by (simp add: sample_env_def)
  from update_product_patch [OF find_product_P own quiet, where req = price_only]
  obtain d i pre post prd' where
    "Some shop_db = Some d" "product_coll d = pre @ product_P # post"
    "update_product (sample_env (\<lambda>_. False)) (Some shop_db) ''000000000000000000000002''
       price_only ''000000000000000000000001''
     = (Inr Ok, Some (d\<lparr>product_coll := pre @ prd' # post\<rparr>))"
    "price (body prd') = 999" "title (body prd') = ''x''"
    "category (body prd') = Some ''toys''" "description (body prd') = None"
    "affiliate_link (body prd') = Some ''https://vendor/x''"
    "clicks (body prd') = 0" "orders (body prd') = 0" "updated_at prd' = 100"
    by (auto simp: price_only_def product_P_def sample_env_def)
  moreover from this(1,2) pc have "d = shop_db" "pre = []" "post = []"
    by (auto simp: append_eq_Cons_conv Cons_eq_append_conv)
  moreover have "updated_at product_P = 2"
    by (simp add: product_P_def)
  ultimately show ?thesis
    by (intro exI [of _ prd']) simp
qed

section \<open>Searching the listings\<close>


















section \<open>The counters of a product\<close>

lemma length_update_one [simp]: "length (update_one P f xs) = length xs"
  by (induction xs) simp_all

lemma nth_update_one:
  "i < length xs \<Longrightarrow> update_one P f xs ! i = xs ! i \<or> update_one P f xs ! i = f (xs ! i)"
proof (induction xs arbitrary: i)
  case Nil
  then show ?case by simp
next
  case (Cons a xs)
  then show ?case by (cases i) auto
qed

lemma products_create_product:
  "products_of (snd (create_product e db req user_id)) = products_of db
   \<or> (\<exists>x. products_of (snd (create_product e db req user_id)) = products_of db @ [x]
        \<and> clicks (body x) = 0 \<and> orders (body x) = 0 \<and> affiliate_id (body x) = user_id)"
  by (auto simp: create_product_def create_document_def write_coll_def ProductSchema_def
      products_of_def split: option.splits sum.splits if_splits)

lemma products_update_product:
  "products_of (snd (update_product e db product_id req user_id)) = products_of db
   \<or> (\<exists>i. products_of (snd (update_product e db product_id req user_id))
        = update_one (\<lambda>x. oid x = i) (set_updates req (clock e)) (products_of db))"
  by (auto simp: update_product_def write_coll_def products_of_def
      split: option.splits sum.splits if_splits)

lemma products_redirect_product:
  "products_of (snd (redirect_product e db product_id request user_id)) = products_of db
   \<or> (\<exists>i. products_of (snd (redirect_product e db product_id request user_id))
        = update_one (\<lambda>x. oid x = i) inc_clicks (products_of db))"
  by (auto simp: redirect_product_def find_product_def write_coll_def create_document_def
      swallow_def products_of_def Let_def split: option.splits sum.splits if_splits)

lemma products_set_links:
  "products_of (snd (set_links e db payload admin_email admin_password)) = products_of db"
  by (auto simp: set_links_def write_coll_def create_document_def swallow_def products_of_def
      split: option.splits sum.splits if_splits)

lemma products_redirect_platform:
  "products_of (snd (redirect_platform e db platform request user_id)) = products_of db"
  by (auto simp: redirect_platform_def write_coll_def create_document_def swallow_def
      products_of_def Let_def split: option.splits sum.splits if_splits)

lemma products_create_order:
  "products_of (snd (create_order e db product_id user_id)) = products_of db"
  by (auto simp: create_order_def write_coll_def create_document_def products_of_def
      split: option.splits sum.splits if_splits)

lemma in_set_update_one:
  "y \<in> set (update_one P f xs) \<Longrightarrow> y \<in> set xs \<or> (\<exists>x\<in>set xs. y = f x)"
  by (induction xs) (auto split: if_splits)

lemma counters_grow_refl: "counters_grow ps ps"
  by (simp add: counters_grow_def list_all_iff)

lemma counters_grow_trans:
  assumes "counters_grow ps qs" and "counters_grow qs rs"
  shows "counters_grow ps rs"
  unfolding counters_grow_def list_all_iff
proof (intro conjI ballI)
  from assms show "length ps \<le> length rs"
    by (simp add: counters_grow_def)
next
  fix i assume "i \<in> set [0..<length ps]"
  with assms(1) have i: "i \<in> set [0..<length ps]" "i \<in> set [0..<length qs]"
    by (simp_all add: counters_grow_def)
  from assms(1) i(1) have
    "clicks (body (ps ! i)) \<le> clicks (body (qs ! i))"
    "orders (body (ps ! i)) \<le> orders (body (qs ! i))"
    "affiliate_id (body (qs ! i)) = affiliate_id (body (ps ! i))"
    unfolding counters_grow_def list_all_iff by blast+
  moreover from assms(2) i(2) have
    "clicks (body (qs ! i)) \<le> clicks (body (rs ! i))"
    "orders (body (qs ! i)) \<le> orders (body (rs ! i))"
    "affiliate_id (body (rs ! i)) = affiliate_id (body (qs ! i))"
    unfolding counters_grow_def list_all_iff by blast+
  ultimately show "clicks (body (ps ! i)) \<le> clicks (body (rs ! i))"
    "orders (body (ps ! i)) \<le> orders (body (rs ! i))"
    "affiliate_id (body (rs ! i)) = affiliate_id (body (ps ! i))"
    by simp_all
qed

lemma counters_grow_append: "counters_grow ps (ps @ [x])"
  by (simp add: counters_grow_def list_all_iff nth_append)

lemma counters_grow_update_one:
  assumes "\<And>x. clicks (body x) \<le> clicks (body (f x)) \<and> orders (body x) \<le> orders (body (f x))
             \<and> affiliate_id (body (f x)) = affiliate_id (body x)"
  shows "counters_grow ps (update_one P f ps)"
  unfolding counters_grow_def list_all_iff
proof (intro conjI ballI)
  show "length ps \<le> length (update_one P f ps)" by simp
next
  fix i assume "i \<in> set [0..<length ps]"
  then have "i < length ps" by simp
  from nth_update_one [OF this, of P f] assms [of "ps ! i"]
  show "clicks (body (ps ! i)) \<le> clicks (body (update_one P f ps ! i))"
    "orders (body (ps ! i)) \<le> orders (body (update_one P f ps ! i))"
    "affiliate_id (body (update_one P f ps ! i)) = affiliate_id (body (ps ! i))"
    by auto
qed

lemma counters_nonneg_update_one:
  assumes "counters_nonneg ps"
    and "\<And>x. clicks (body x) \<le> clicks (body (f x)) \<and> orders (body x) \<le> orders (body (f x))"
  shows "counters_nonneg (update_one P f ps)"
  unfolding counters_nonneg_def list_all_iff
proof
  fix y assume "y \<in> set (update_one P f ps)"
  then consider "y \<in> set ps" | x where "x \<in> set ps" "y = f x"
    using in_set_update_one by fast
  then show "0 \<le> clicks (body y) \<and> 0 \<le> orders (body y)"
  proof cases
    case 1
    with assms(1) show ?thesis by (simp add: counters_nonneg_def list_all_iff)
  next
    case 2
    with assms(1) have "0 \<le> clicks (body x) \<and> 0 \<le> orders (body x)"
      by (simp add: counters_nonneg_def list_all_iff)
    with assms(2) [of x] 2 show ?thesis by simp
  qed
qed

lemma set_updates_counters:
  "clicks (body (set_updates req now x)) = clicks (body x)"
  "orders (body (set_updates req now x)) = orders (body x)"
  "affiliate_id (body (set_updates req now x)) = affiliate_id (body x)"
  by (simp_all add: set_updates_def)

lemma inc_clicks_counters:
  "clicks (body (inc_clicks x)) = clicks (body x) + 1"
  "orders (body (inc_clicks x)) = orders (body x)"
  "affiliate_id (body (inc_clicks x)) = affiliate_id (body x)"
  by (simp_all add: inc_clicks_def)

lemma perform_grow: "counters_grow (products_of db) (products_of (snd (perform c db)))"
proof (cases c)
  case (Create_product e req user_id)
  with products_create_product [of e db req user_id] show ?thesis
    by (auto simp: counters_grow_refl counters_grow_append)
next
  case (Update_product e product_id req user_id)
  with products_update_product [of e db product_id req user_id] show ?thesis
    by (auto simp: counters_grow_refl set_updates_counters intro!: counters_grow_update_one)
next
  case (Set_links e payload admin_email admin_password)
  then show ?thesis by (simp add: products_set_links counters_grow_refl)
next
  case (Redirect_platform e platform request user_id)
  then show ?thesis by (simp add: products_redirect_platform counters_grow_refl)
next
  case (Redirect_product e product_id request user_id)
  with products_redirect_product [of e db product_id request user_id] show ?thesis
    by (auto simp: counters_grow_refl inc_clicks_counters intro!: counters_grow_update_one)
next
  case (Create_order e product_id user_id)
  then show ?thesis by (simp add: products_create_order counters_grow_refl)
qed

lemma perform_nonneg:
  assumes "counters_nonneg (products_of db)"
  shows "counters_nonneg (products_of (snd (perform c db)))"
proof (cases c)
  case (Create_product e req user_id)
  with products_create_product [of e db req user_id] assms show ?thesis
    by (auto simp: counters_nonneg_def)
next
  case (Update_product e product_id req user_id)
  with products_update_product [of e db product_id req user_id] assms show ?thesis
    by (auto simp: set_updates_counters intro!: counters_nonneg_update_one)
next
  case (Set_links e payload admin_email admin_password)
  with assms show ?thesis by (simp add: products_set_links)
next
  case (Redirect_platform e platform request user_id)
  with assms show ?thesis by (simp add: products_redirect_platform)
next
  case (Redirect_product e product_id request user_id)
  with products_redirect_product [of e db product_id request user_id] assms show ?thesis
    by (auto simp: inc_clicks_counters intro!: counters_nonneg_update_one)
next
  case (Create_order e product_id user_id)
  with assms show ?thesis by (simp add: products_create_order)
qed

lemma run_counters:
  "counters_nonneg (products_of db) \<Longrightarrow>
   counters_nonneg (products_of (run cs db)) \<and> counters_grow (products_of db) (products_of (run cs db))"
proof (induction cs arbitrary: db)
  case Nil
  then show ?case by (simp add: counters_grow_refl)
next
  case (Cons c cs)
  from Cons.prems have "counters_nonneg (products_of (snd (perform c db)))"
    by (rule perform_nonneg)
  from Cons.IH [OF this] perform_grow [of db c] show ?case
    by (auto intro: counters_grow_trans)
qed

lemma create_product_written:
  assumes "create_product e db req user_id = (Inr (Ok_product_id pid), db')"
  shows "\<exists>d prd. db = Some d \<and> ProductSchema user_id req = Inr prd
           \<and> db' = Some (d\<lparr>product_coll := product_coll d @
                 [\<lparr>oid = new_id e 0, created_at = clock e, updated_at = clock e, body = prd\<rparr>]\<rparr>)"
  using assms
  by (auto simp: create_product_def create_document_def write_coll_def
      split: option.splits sum.splits if_splits)

lemma ProductSchema_counters:
  "ProductSchema user_id req = Inr prd \<Longrightarrow>
   clicks prd = 0 \<and> orders prd = 0 \<and> affiliate_id prd = user_id"
  by (auto simp: ProductSchema_def split: if_splits)

lemma create_product_new:
  assumes "create_product e db req user_id = (Inr (Ok_product_id pid), db')"
  shows "\<exists>d x. db = Some d \<and> db' = Some (d\<lparr>product_coll := product_coll d @ [x]\<rparr>)
           \<and> clicks (body x) = 0 \<and> orders (body x) = 0 \<and> affiliate_id (body x) = user_id"
proof -
  from create_product_written [OF assms] obtain d prd where
    d: "db = Some d" and p: "ProductSchema user_id req = Inr prd"
    and w: "db' = Some (d\<lparr>product_coll := product_coll d @
                 [\<lparr>oid = new_id e 0, created_at = clock e, updated_at = clock e, body = prd\<rparr>]\<rparr>)"
    by blast
  let ?x = "\<lparr>oid = new_id e 0, created_at = clock e, updated_at = clock e, body = prd\<rparr>"
  from ProductSchema_counters [OF p] have
    "clicks (body ?x) = 0 \<and> orders (body ?x) = 0 \<and> affiliate_id (body ?x) = user_id"
    by simp
  with d w show ?thesis by blast
qed

lemma redirect_product_counters:
  assumes "i < length (products_of db)"
  shows "length (products_of (snd (redirect_product e db product_id request user_id)))
           = length (products_of db)
    \<and> (clicks (body (products_of (snd (redirect_product e db product_id request user_id)) ! i))
          = clicks (body (products_of db ! i))
        \<or> clicks (body (products_of (snd (redirect_product e db product_id request user_id)) ! i))
          = clicks (body (products_of db ! i)) + 1)
    \<and> orders (body (products_of (snd (redirect_product e db product_id request user_id)) ! i))
          = orders (body (products_of db ! i))
    \<and> affiliate_id (body (products_of (snd (redirect_product e db product_id request user_id)) ! i))
          = affiliate_id (body (products_of db ! i))"
  using products_redirect_product [of e db product_id request user_id]
proof (elim disjE exE)
  assume "products_of (snd (redirect_product e db product_id request user_id)) = products_of db"
  then show ?thesis by simp
next
  fix j
  assume u: "products_of (snd (redirect_product e db product_id request user_id))
        = update_one (\<lambda>x. oid x = j) inc_clicks (products_of db)"
  from nth_update_one [OF assms, of "\<lambda>x. oid x = j" inc_clicks] show ?thesis
    unfolding u by (auto simp: inc_clicks_counters)
qed

lemma update_product_counters:
  assumes "i < length (products_of db)"
  shows "length (products_of (snd (update_product e db product_id req user_id)))
           = length (products_of db)
    \<and> clicks (body (products_of (snd (update_product e db product_id req user_id)) ! i))
          = clicks (body (products_of db ! i))
    \<and> orders (body (products_of (snd (update_product e db product_id req user_id)) ! i))
          = orders (body (products_of db ! i))
    \<and> affiliate_id (body (products_of (snd (update_product e db product_id req user_id)) ! i))
          = affiliate_id (body (products_of db ! i))"
  using products_update_product [of e db product_id req user_id]
proof (elim disjE exE)
  assume "products_of (snd (update_product e db product_id req user_id)) = products_of db"
  then show ?thesis by simp
next
  fix j
  assume u: "products_of (snd (update_product e db product_id req user_id))
        = update_one (\<lambda>x. oid x = j) (set_updates req (clock e)) (products_of db)"
  from nth_update_one [OF assms, of "\<lambda>x. oid x = j" "set_updates req (clock e)"] show ?thesis
    unfolding u by (auto simp: set_updates_counters)
qed

text \<open>
  C9. A listing that \<open>create_product\<close> stores has both counters at 0 and the creating
  user as its \<open>affiliate_id\<close>. \<open>redirect_product\<close> adds no product and changes of each
  product at most the \<open>clicks\<close> counter, by exactly 1. \<open>update_product\<close> adds no
  product and changes of no product the counters or the \<open>affiliate_id\<close>. And over every
  sequence of requests, from a store whose counters are not negative: no counter is
  negative afterwards, and no counter of a product has decreased.
\<close>

theorem counters_monotone:
  "(create_product e db new user_id = (Inr (Ok_product_id pid), db') \<longrightarrow>
      (\<exists>d x. db = Some d \<and> db' = Some (d\<lparr>product_coll := product_coll d @ [x]\<rparr>)
           \<and> clicks (body x) = 0 \<and> orders (body x) = 0 \<and> affiliate_id (body x) = user_id))
   \<and> (i < length (products_of db) \<longrightarrow>
        length (products_of (snd (redirect_product e db product_id request user_id')))
           = length (products_of db)
        \<and> (clicks (body (products_of (snd (redirect_product e db product_id request user_id')) ! i))
              = clicks (body (products_of db ! i))
            \<or> clicks (body (products_of (snd (redirect_product e db product_id request user_id')) ! i))
              = clicks (body (products_of db ! i)) + 1)
        \<and> orders (body (products_of (snd (redirect_product e db product_id request user_id')) ! i))
              = orders (body (products_of db ! i))
        \<and> affiliate_id (body (products_of (snd (redirect_product e db product_id request user_id')) ! i))
              = affiliate_id (body (products_of db ! i)))
   \<and> (i < length (products_of db) \<longrightarrow>
        length (products_of (snd (update_product e db product_id upd user_id)))
           = length (products_of db)
        \<and> clicks (body (products_of (snd (update_product e db product_id upd user_id)) ! i))
              = clicks (body (products_of db ! i))
        \<and> orders (body (products_of (snd (update_product e db product_id upd user_id)) ! i))
              = orders (body (products_of db ! i))
        \<and> affiliate_id (body (products_of (snd (update_product e db product_id upd user_id)) ! i))
              = affiliate_id (body (products_of db ! i)))
   \<and> (counters_nonneg (products_of db) \<longrightarrow>
        counters_nonneg (products_of (run cs db))
        \<and> counters_grow (products_of db) (products_of (run cs db)))"
  using create_product_new [of e db new user_id pid db']
    redirect_product_counters [of i db e product_id request user_id']
    update_product_counters [of i db e product_id upd user_id]
    run_counters [of db cs]
  by blast

lemma oid_A: "ObjectId ''000000000000000000000001'' = Some ''000000000000000000000001''"
  by code_simp

lemma oid_listed: "ObjectId ''0000000000000000000000a0'' = Some ''0000000000000000000000a0''"
  by code_simp

lemma create_listing:
  "create_product (sample_env (\<lambda>_. False)) (Some users_db) listing ''000000000000000000000001''
     = (Inr (Ok_product_id ''0000000000000000000000a0''),
        Some (users_db\<lparr>product_coll := [listed]\<rparr>))"
  by (simp add: create_product_def oid_A users_db_def empty_db_def find_one_def affiliate_A_def
      ProductSchema_def listing_def create_document_def write_coll_def sample_env_def listed_def)

lemma redirect_listing:
  assumes "product_coll d = [listed]"
  shows "\<exists>d'. snd (redirect_product (sample_env (\<lambda>_. False)) (Some d)
            ''0000000000000000000000a0'' visitor None) = Some d'
          \<and> product_coll d' = [listed\<lparr>body := (body listed)\<lparr>clicks := 1\<rparr>\<rparr>]"
  using assms
  by (simp add: redirect_product_def find_product_def oid_listed find_one_def listed_def
      if_truthy_def swallow_def write_coll_def create_document_def sample_env_def inc_clicks_def)

lemma update_listing:
  assumes "product_coll d = [listed\<lparr>body := (body listed)\<lparr>clicks := c\<rparr>\<rparr>]"
  shows "products_of (snd (update_product (sample_env (\<lambda>_. False)) (Some d)
       ''0000000000000000000000a0'' price_only ''000000000000000000000001''))
     = [listed\<lparr>body := (body listed)\<lparr>clicks := c, price := 999\<rparr>\<rparr>]"
  using assms
  by (simp add: update_product_def oid_listed find_one_def listed_def write_coll_def
      sample_env_def set_updates_def price_only_def set_field_def set_optional_def
      products_of_def)

lemma run_scenario:
  "products_of (run scenario (Some users_db))
     = [listed\<lparr>body := (body listed)\<lparr>clicks := 1, price := 999\<rparr>\<rparr>]"
proof -
  have "product_coll (users_db\<lparr>product_coll := [listed]\<rparr>) = [listed]"
    by simp
  from redirect_listing [OF this] obtain d' where
    r: "snd (redirect_product (sample_env (\<lambda>_. False)) (Some (users_db\<lparr>product_coll := [listed]\<rparr>))
            ''0000000000000000000000a0'' visitor None) = Some d'"
    and p: "product_coll d' = [listed\<lparr>body := (body listed)\<lparr>clicks := 1\<rparr>\<rparr>]"
    by blast
  from update_listing [OF p] show ?thesis
    by (simp add: scenario_def create_listing r)
qed

theorem counters_monotone_witness:
  "(\<exists>d x. Some users_db = Some d
        \<and> Some (users_db\<lparr>product_coll := [listed]\<rparr>)
            = Some (d\<lparr>product_coll := product_coll d @ [x]\<rparr>)
        \<and> clicks (body x) = 0 \<and> orders (body x) = 0
        \<and> affiliate_id (body x) = ''000000000000000000000001'')
   \<and> clicks (body (products_of (snd (redirect_product (sample_env (\<lambda>_. False))
          (Some (users_db\<lparr>product_coll := [listed]\<rparr>)) ''0000000000000000000000a0'' visitor None))
          ! 0)) = clicks (body listed) + 1
   \<and> orders (body (products_of (snd (redirect_product (sample_env (\<lambda>_. False))
          (Some (users_db\<lparr>product_coll := [listed]\<rparr>)) ''0000000000000000000000a0'' visitor None))
          ! 0)) = orders (body listed)
   \<and> clicks (body (products_of (snd (update_product (sample_env (\<lambda>_. False))
          (Some (users_db\<lparr>product_coll := [listed]\<rparr>)) ''0000000000000000000000a0'' price_only
          ''000000000000000000000001'')) ! 0)) = clicks (body listed)
   \<and> affiliate_id (body (products_of (snd (update_product (sample_env (\<lambda>_. False))
          (Some (users_db\<lparr>product_coll := [listed]\<rparr>)) ''0000000000000000000000a0'' price_only
          ''000000000000000000000001'')) ! 0)) = affiliate_id (body listed)
   \<and> counters_nonneg (products_of (Some users_db))
   \<and> products_of (run scenario (Some users_db))
        = [listed\<lparr>body := (body listed)\<lparr>clicks := 1, price := 999\<rparr>\<rparr>]
   \<and> counters_nonneg (products_of (run scenario (Some users_db)))
   \<and> counters_grow (products_of (Some users_db)) (products_of (run scenario (Some users_db)))"
proof -
  have nn: "counters_nonneg (products_of (Some users_db))"
    by (simp add: counters_nonneg_def products_of_def users_db_def empty_db_def)
  have len: "0 < length (products_of (Some (users_db\<lparr>product_coll := [listed]\<rparr>)))"
    and p0: "products_of (Some (users_db\<lparr>product_coll := [listed]\<rparr>)) ! 0 = listed"
    by (simp_all add: products_of_def)
  note a = counters_monotone
    [where e = "sample_env (\<lambda>_. False)" and db = "Some users_db" and new = listing
       and user_id = "''000000000000000000000001''" and pid = "''0000000000000000000000a0''"
       and db' = "Some (users_db\<lparr>product_coll := [listed]\<rparr>)" and cs = scenario]
  note b = counters_monotone
    [where e = "sample_env (\<lambda>_. False)" and db = "Some (users_db\<lparr>product_coll := [listed]\<rparr>)"
       and i = 0 and product_id = "''0000000000000000000000a0''" and request = visitor
       and user_id' = None and upd = price_only and user_id = "''000000000000000000000001''"]
  from a create_listing have 1: "\<exists>d x. Some users_db = Some d
        \<and> Some (users_db\<lparr>product_coll := [listed]\<rparr>)
            = Some (d\<lparr>product_coll := product_coll d @ [x]\<rparr>)
        \<and> clicks (body x) = 0 \<and> orders (body x) = 0
        \<and> affiliate_id (body x) = ''000000000000000000000001''"
    by blast
  from a nn have 4: "counters_nonneg (products_of (run scenario (Some users_db)))
      \<and> counters_grow (products_of (Some users_db)) (products_of (run scenario (Some users_db)))"
    by blast
  from b len have 2: "orders (body (products_of (snd (redirect_product (sample_env (\<lambda>_. False))
          (Some (users_db\<lparr>product_coll := [listed]\<rparr>)) ''0000000000000000000000a0'' visitor None))
          ! 0)) = orders (body listed)"
    and 3: "clicks (body (products_of (snd (update_product (sample_env (\<lambda>_. False))
          (Some (users_db\<lparr>product_coll := [listed]\<rparr>)) ''0000000000000000000000a0'' price_only
          ''000000000000000000000001'')) ! 0)) = clicks (body listed)"
      "affiliate_id (body (products_of (snd (update_product (sample_env (\<lambda>_. False))
          (Some (users_db\<lparr>product_coll := [listed]\<rparr>)) ''0000000000000000000000a0'' price_only
          ''000000000000000000000001'')) ! 0)) = affiliate_id (body listed)"
    unfolding p0 by blast+
  have 5: "clicks (body (products_of (snd (redirect_product (sample_env (\<lambda>_. False))
          (Some (users_db\<lparr>product_coll := [listed]\<rparr>)) ''0000000000000000000000a0'' visitor None))
          ! 0)) = clicks (body listed) + 1"
  proof -
    have "product_coll (users_db\<lparr>product_coll := [listed]\<rparr>) = [listed]"
      by simp
    from redirect_listing [OF this] show ?thesis
      by (auto simp: products_of_def listed_def)
  qed
  from 1 2 3 4 5 nn run_scenario show ?thesis
    by blast
qed

end
